theory Spec2Isabelle
  imports Main "HOL-Library.Word"
begin

unbundle bit_operations_syntax

section \<open>Bit-field layouts of SI4735.h\<close>

text \<open>
  Every command, property and response of the Si47XX is declared in \<open>SI4735.h\<close> as a
  union of a struct of bit-fields with a raw byte array. A declared member is kept here
  as its name, the width in bits of its declared base type (\<open>uint8_t\<close> is 8,
  \<open>uint16_t\<close> 16, \<open>uint32_t\<close> 32) and its own width in bits; a member that is not a
  bit-field has the full width of its type. The members of a struct are listed in
  declaration order.
\<close>

datatype bitfield = Bits (fname: string) (funit: nat) (fbits: nat)

datatype layout = Layout (lname: string) (lfields: "bitfield list")

abbreviation u8 :: "string \<Rightarrow> nat \<Rightarrow> bitfield" where
  "u8 n w \<equiv> Bits n 8 w"

abbreviation byte :: "string \<Rightarrow> bitfield" where
  "byte n \<equiv> Bits n 8 8"

abbreviation u16 :: "string \<Rightarrow> nat \<Rightarrow> bitfield" where
  "u16 n w \<equiv> Bits n 16 w"

text \<open>The status byte that opens every response (\<open>RESP0\<close>).\<close>

definition status_bits :: "bitfield list" where
  "status_bits =
     [u8 ''STCINT'' 1, u8 ''DUMMY1'' 1, u8 ''RDSINT'' 1, u8 ''RSQINT'' 1,
      u8 ''DUMMY2'' 2, u8 ''ERR'' 1, u8 ''CTS'' 1]"

definition si473x_powerup_layout :: layout where
  "si473x_powerup_layout = Layout ''si473x_powerup''
     [u8 ''FUNC'' 4, u8 ''XOSCEN'' 1, u8 ''PATCH'' 1, u8 ''GPO2OEN'' 1, u8 ''CTSIEN'' 1,
      byte ''OPMODE'']"

definition si47x_frequency_layout :: layout where
  "si47x_frequency_layout = Layout ''si47x_frequency'' [byte ''FREQL'', byte ''FREQH'']"

definition si47x_antenna_capacitor_layout :: layout where
  "si47x_antenna_capacitor_layout = Layout ''si47x_antenna_capacitor''
     [byte ''ANTCAPL'', byte ''ANTCAPH'']"

definition si47x_set_frequency_layout :: layout where
  "si47x_set_frequency_layout = Layout ''si47x_set_frequency''
     [u8 ''FAST'' 1, u8 ''FREEZE'' 1, u8 ''DUMMY1'' 4, u8 ''USBLSB'' 2,
      byte ''FREQH'', byte ''FREQL'', byte ''ANTCAPH'', byte ''ANTCAPL'']"

definition si47x_seek_layout :: layout where
  "si47x_seek_layout = Layout ''si47x_seek''
     [u8 ''RESERVED1'' 2, u8 ''WRAP'' 1, u8 ''SEEKUP'' 1, u8 ''RESERVED2'' 4]"

definition si47x_status_layout :: layout where
  "si47x_status_layout = Layout ''si47x_status'' status_bits"

definition si47x_response_status_layout :: layout where
  "si47x_response_status_layout = Layout ''si47x_response_status''
     (status_bits @
      [u8 ''VALID'' 1, u8 ''AFCRL'' 1, u8 ''DUMMY3'' 5, u8 ''BLTF'' 1,
       byte ''READFREQH'', byte ''READFREQL'', byte ''RSSI'', byte ''SNR'', byte ''MULT'',
       byte ''READANTCAP''])"

definition si47x_firmware_information_layout :: layout where
  "si47x_firmware_information_layout = Layout ''si47x_firmware_information''
     (status_bits @
      [byte ''PN'', byte ''FWMAJOR'', byte ''FWMINOR'', byte ''PATCHH'', byte ''PATCHL'',
       byte ''CMPMAJOR'', byte ''CMPMINOR'', byte ''CHIPREV''])"

definition si47x_firmware_query_library_layout :: layout where
  "si47x_firmware_query_library_layout = Layout ''si47x_firmware_query_library''
     (status_bits @
      [byte ''PN'', byte ''FWMAJOR'', byte ''FWMINOR'', byte ''RESERVED1'',
       byte ''RESERVED2'', byte ''CHIPREV'', byte ''LIBRARYID''])"

definition si47x_tune_status_layout :: layout where
  "si47x_tune_status_layout = Layout ''si47x_tune_status''
     [u8 ''INTACK'' 1, u8 ''CANCEL'' 1, u8 ''RESERVED2'' 6]"

definition si47x_property_layout :: layout where
  "si47x_property_layout = Layout ''si47x_property'' [byte ''byteLow'', byte ''byteHigh'']"

definition si47x_rqs_status_layout :: layout where
  "si47x_rqs_status_layout = Layout ''si47x_rqs_status''
     (status_bits @
      [u8 ''RSSIILINT'' 1, u8 ''RSSIHINT'' 1, u8 ''SNRLINT'' 1, u8 ''SNRHINT'' 1,
       u8 ''MULTLINT'' 1, u8 ''MULTHINT'' 1, u8 ''DUMMY3'' 1, u8 ''BLENDINT'' 1,
       u8 ''VALID'' 1, u8 ''AFCRL'' 1, u8 ''DUMMY4'' 1, u8 ''SMUTE'' 1, u8 ''DUMMY5'' 4,
       u8 ''STBLEND'' 7, u8 ''PILOT'' 1,
       byte ''RSSI'', byte ''SNR'', byte ''MULT'', byte ''FREQOFF''])"

definition si47x_rds_command_layout :: layout where
  "si47x_rds_command_layout = Layout ''si47x_rds_command''
     [u8 ''INTACK'' 1, u8 ''MTFIFO'' 1, u8 ''STATUSONLY'' 1, u8 ''dummy'' 5]"

definition si47x_rds_status_layout :: layout where
  "si47x_rds_status_layout = Layout ''si47x_rds_status''
     (status_bits @
      [u8 ''RDSRECV'' 1, u8 ''RDSSYNCLOST'' 1, u8 ''RDSSYNCFOUND'' 1, u8 ''DUMMY3'' 1,
       u8 ''RDSNEWBLOCKA'' 1, u8 ''RDSNEWBLOCKB'' 1, u8 ''DUMMY4'' 2,
       u8 ''RDSSYNC'' 1, u8 ''DUMMY5'' 1, u8 ''GRPLOST'' 1, u8 ''DUMMY6'' 5,
       byte ''RDSFIFOUSED'',
       byte ''BLOCKAH'', byte ''BLOCKAL'', byte ''BLOCKBH'', byte ''BLOCKBL'',
       byte ''BLOCKCH'', byte ''BLOCKCL'', byte ''BLOCKDH'', byte ''BLOCKDL'',
       u8 ''BLED'' 2, u8 ''BLEC'' 2, u8 ''BLEB'' 2, u8 ''BLEA'' 2])"

definition si47x_rds_int_source_layout :: layout where
  "si47x_rds_int_source_layout = Layout ''si47x_rds_int_source''
     [u8 ''RDSRECV'' 1, u8 ''RDSSYNCLOST'' 1, u8 ''RDSSYNCFOUND'' 1, u8 ''DUMMY1'' 1,
      u8 ''RDSNEWBLOCKA'' 1, u8 ''RDSNEWBLOCKB'' 1, u8 ''DUMMY2'' 5, u8 ''DUMMY3'' 5]"

definition si47x_rds_config_layout :: layout where
  "si47x_rds_config_layout = Layout ''si47x_rds_config''
     [u8 ''RDSEN'' 1, u8 ''DUMMY1'' 7,
      u8 ''BLETHD'' 2, u8 ''BLETHC'' 2, u8 ''BLETHB'' 2, u8 ''BLETHA'' 2]"

text \<open>Block A is read as the 16-bit \<open>pi\<close> or as its two raw bytes.\<close>

definition si47x_rds_blocka_refined_layout :: layout where
  "si47x_rds_blocka_refined_layout = Layout ''si47x_rds_blocka.refined''
     [Bits ''pi'' 16 16]"

definition si47x_rds_blocka_raw_layout :: layout where
  "si47x_rds_blocka_raw_layout = Layout ''si47x_rds_blocka.raw''
     [byte ''highValue'', byte ''lowValue'']"

text \<open>
  Block B of an RDS group is one 16-bit unit read three ways (\<open>group0\<close>, \<open>group2\<close>,
  \<open>refined\<close>), whose members are bit-fields of \<open>uint16_t\<close>, or as its two raw
  bytes.
\<close>

definition si47x_rds_blockb_raw_layout :: layout where
  "si47x_rds_blockb_raw_layout = Layout ''si47x_rds_blockb.raw''
     [byte ''lowValue'', byte ''highValue'']"

definition si47x_rds_blockb_group0_layout :: layout where
  "si47x_rds_blockb_group0_layout = Layout ''si47x_rds_blockb.group0''
     [u16 ''address'' 2, u16 ''DI'' 1, u16 ''MS'' 1, u16 ''TA'' 1, u16 ''programType'' 5,
      u16 ''trafficProgramCode'' 1, u16 ''versionCode'' 1, u16 ''groupType'' 4]"

definition si47x_rds_blockb_group2_layout :: layout where
  "si47x_rds_blockb_group2_layout = Layout ''si47x_rds_blockb.group2''
     [u16 ''address'' 4, u16 ''textABFlag'' 1, u16 ''programType'' 5,
      u16 ''trafficProgramCode'' 1, u16 ''versionCode'' 1, u16 ''groupType'' 4]"

definition si47x_rds_blockb_refined_layout :: layout where
  "si47x_rds_blockb_refined_layout = Layout ''si47x_rds_blockb.refined''
     [u16 ''content'' 4, u16 ''textABFlag'' 1, u16 ''programType'' 5,
      u16 ''trafficProgramCode'' 1, u16 ''versionCode'' 1, u16 ''groupType'' 4]"

text \<open>
  The date and time of group 4A: minute and hour are split in two members each, and the
  modified Julian day is a 17-bit field of \<open>uint32_t\<close>.
\<close>

definition si47x_rds_date_time_layout :: layout where
  "si47x_rds_date_time_layout = Layout ''si47x_rds_date_time''
     [u8 ''offset'' 5, u8 ''offset_sense'' 1, u8 ''minute1'' 2,
      u8 ''minute2'' 4, u8 ''hour1'' 4,
      u8 ''hour2'' 1, Bits ''mjd'' 32 17]"

definition si47x_agc_status_layout :: layout where
  "si47x_agc_status_layout = Layout ''si47x_agc_status''
     (status_bits @ [u8 ''AGCDIS'' 1, u8 ''DUMMY'' 7, byte ''AGCIDX''])"

definition si47x_agc_overrride_layout :: layout where
  "si47x_agc_overrride_layout = Layout ''si47x_agc_overrride''
     [u8 ''AGCDIS'' 1, u8 ''DUMMY'' 7, byte ''AGCIDX'']"

definition si47x_bandwidth_config_layout :: layout where
  "si47x_bandwidth_config_layout = Layout ''si47x_bandwidth_config''
     [u8 ''AMCHFLT'' 4, u8 ''DUMMY1'' 4, u8 ''AMPLFLT'' 1, u8 ''DUMMY2'' 7]"

definition si47x_ssb_mode_layout :: layout where
  "si47x_ssb_mode_layout = Layout ''si47x_ssb_mode''
     [u8 ''AUDIOBW'' 4, u8 ''SBCUTFLT'' 4,
      u8 ''AVC_DIVIDER'' 4, u8 ''AVCEN'' 1, u8 ''SMUTESEL'' 1, u8 ''DUMMY1'' 1,
      u8 ''DSP_AFCDIS'' 1]"

definition si4735_digital_output_format_layout :: layout where
  "si4735_digital_output_format_layout = Layout ''si4735_digital_output_format''
     [u8 ''OSIZE'' 2, u8 ''OMONO'' 1, u8 ''OMODE'' 4, u8 ''OFALL'' 1, u8 ''dummy'' 8]"

text \<open>The response structures: the ones whose struct opens with the status bits.\<close>

definition response_layouts :: "layout list" where
  "response_layouts =
     [si47x_status_layout, si47x_response_status_layout,
      si47x_firmware_information_layout, si47x_firmware_query_library_layout,
      si47x_rqs_status_layout, si47x_rds_status_layout, si47x_agc_status_layout]"


subsection \<open>Packing\<close>

text \<open>
  Members are packed low bit first in declaration order: the first member starts at
  bit 0 of the raw array, and each member starts where the one before it ends.
  \<open>place\<close> pairs every member with the index of its first bit.
\<close>

fun place :: "nat \<Rightarrow> bitfield list \<Rightarrow> (bitfield \<times> nat) list" where
  "place off [] = []"
| "place off (f # fs) = (f, off) # place (off + fbits f) fs"

definition placed :: "layout \<Rightarrow> (bitfield \<times> nat) list" where
  "placed L = place 0 (lfields L)"


definition last_bit :: "bitfield \<times> nat \<Rightarrow> nat" where
  "last_bit p = snd p + fbits (fst p) - 1"


text \<open>Where a member of a given name sits: its first bit and its width.\<close>

fun find_field :: "string \<Rightarrow> (bitfield \<times> nat) list \<Rightarrow> (nat \<times> nat) option" where
  "find_field n [] = None"
| "find_field n (p # ps) =
     (if fname (fst p) = n then Some (snd p, fbits (fst p)) else find_field n ps)"

definition field_range :: "layout \<Rightarrow> string \<Rightarrow> (nat \<times> nat) option" where
  "field_range L n = find_field n (placed L)"

text \<open>Reading a member out of the raw value: shift down to its first bit, keep its width.\<close>

definition read_range :: "(nat \<times> nat) option \<Rightarrow> 'a::len word \<Rightarrow> 'a word" where
  "read_range r w = (case r of None \<Rightarrow> 0 | Some (off, n) \<Rightarrow> take_bit n (drop_bit off w))"

definition read_field :: "layout \<Rightarrow> string \<Rightarrow> 'a::len word \<Rightarrow> 'a word" where
  "read_field L n w = read_range (field_range L n) w"

section \<open>The controller\<close>

subsection \<open>Constants of the header\<close>

definition SI473X_ADDR_SEN_LOW :: "16 word" where
  "SI473X_ADDR_SEN_LOW = 0x11"


subsection \<open>Data\<close>

text \<open>
  \<open>si47x_frequency\<close> overlays the 16-bit \<open>value\<close> on the two bytes \<open>FREQL\<close>,
  \<open>FREQH\<close>, in this order in memory. The boards the library is written for store a
  16-bit integer low byte first, so writing \<open>value\<close> leaves the low byte in \<open>FREQL\<close>
  and the high byte in \<open>FREQH\<close>, and reading \<open>value\<close> puts them together again.
\<close>

record si47x_frequency =
  FREQL :: "8 word"
  FREQH :: "8 word"

definition si47x_frequency_of_value :: "16 word \<Rightarrow> si47x_frequency" where
  "si47x_frequency_of_value v = \<lparr>FREQL = ucast v, FREQH = ucast (drop_bit 8 v)\<rparr>"

definition si47x_frequency_value :: "si47x_frequency \<Rightarrow> 16 word" where
  "si47x_frequency_value f = word_cat (FREQH f) (FREQL f)"

text \<open>
  The arguments of the tune command (\<open>si47x_set_frequency\<close>); the first byte holds
  the four bit-fields. Its members \<open>FREQH\<close> and \<open>FREQL\<close> are written \<open>ARG_FREQH\<close>
  and \<open>ARG_FREQL\<close>, to tell them from those of \<open>si47x_frequency\<close>.
\<close>

record si47x_set_frequency =
  ARG1 :: "8 word"
  ARG_FREQH :: "8 word"
  ARG_FREQL :: "8 word"
  ANTCAPH :: "8 word"
  ANTCAPL :: "8 word"

text \<open>Of the tune status response, the two bytes of the frequency read back.\<close>

record si47x_response_status =
  READFREQH :: "8 word"
  READFREQL :: "8 word"

text \<open>
  Of the RDS status response: the received flag, the four blocks as their high and low
  bytes, and the error grade of each block (0 clean to 3 uncorrectable).
\<close>

record si47x_rds_status =
  RDSRECV :: "1 word"
  BLOCKAH :: "8 word"
  BLOCKAL :: "8 word"
  BLOCKBH :: "8 word"
  BLOCKBL :: "8 word"
  BLOCKCH :: "8 word"
  BLOCKCL :: "8 word"
  BLOCKDH :: "8 word"
  BLOCKDL :: "8 word"
  BLED :: "2 word"
  BLEC :: "2 word"
  BLEB :: "2 word"
  BLEA :: "2 word"

record si47x_rds_date_time =
  offset :: "8 word"
  offset_sense :: "8 word"
  minute1 :: "8 word"
  minute2 :: "8 word"
  hour1 :: "8 word"
  hour2 :: "8 word"
  mjd :: "32 word"

text \<open>
  The members of class \<open>SI4735\<close> that the operations below read or write. The text
  buffers are \<open>char\<close> arrays of 65, 33 and 9 elements. The class formats the date and
  time into \<open>rds_time[20]\<close>; the format is not part of the specification, and the
  decoded record is kept instead. The class declares one member for the last text flag,
  \<open>lastTextFlagAB\<close>; \<open>lastTextFlag2B\<close> is the flag state that the specification
  gives to type 2B groups on their own (see \<open>getRdsText2B\<close>).
\<close>

record SI4735 =
  rds_buffer2A :: "8 word list"
  rds_buffer2B :: "8 word list"
  rds_buffer0A :: "8 word list"
  rds_date_time :: si47x_rds_date_time
  deviceAddress :: "16 word"
  lastTextFlagAB :: "8 word"
  lastTextFlag2B :: "8 word"
  currentTune :: "8 word"
  currentMinimumFrequency :: "16 word"
  currentMaximumFrequency :: "16 word"
  currentWorkFrequency :: "16 word"
  currentStep :: "16 word"
  currentFrequency :: si47x_frequency
  currentFrequencyParams :: si47x_set_frequency
  currentStatus :: si47x_response_status
  currentRdsStatus :: si47x_rds_status
  volume :: "8 word"

text \<open>
  A constructed controller. The class gives default member initialisers to
  \<open>deviceAddress\<close> (\<open>SI473X_ADDR_SEN_LOW\<close>) and \<open>volume\<close> (32); the members
  without one hold whatever the memory \<open>m\<close> of the object held.
\<close>

definition SI4735_new :: "SI4735 \<Rightarrow> SI4735" where
  "SI4735_new m = m\<lparr>deviceAddress := SI473X_ADDR_SEN_LOW, volume := 32\<rparr>"

text \<open>\<open>getCurrentVolume\<close> is defined in the header: it returns the member.\<close>

definition getCurrentVolume :: "SI4735 \<Rightarrow> 8 word" where
  "getCurrentVolume s = volume s"

text \<open>A memory image with every byte zero, for concrete runs.\<close>

definition zero_memory :: SI4735 where
  "zero_memory =
     \<lparr>rds_buffer2A = replicate 65 0, rds_buffer2B = replicate 33 0,
      rds_buffer0A = replicate 9 0,
      rds_date_time = \<lparr>offset = 0, offset_sense = 0, minute1 = 0, minute2 = 0,
                        hour1 = 0, hour2 = 0, mjd = 0\<rparr>,
      deviceAddress = 0, lastTextFlagAB = 0, lastTextFlag2B = 0, currentTune = 0,
      currentMinimumFrequency = 0, currentMaximumFrequency = 0,
      currentWorkFrequency = 0, currentStep = 0,
      currentFrequency = \<lparr>FREQL = 0, FREQH = 0\<rparr>,
      currentFrequencyParams =
        \<lparr>ARG1 = 0, ARG_FREQH = 0, ARG_FREQL = 0, ANTCAPH = 0, ANTCAPL = 0\<rparr>,
      currentStatus = \<lparr>READFREQH = 0, READFREQL = 0\<rparr>,
      currentRdsStatus =
        \<lparr>RDSRECV = 0, BLOCKAH = 0, BLOCKAL = 0, BLOCKBH = 0, BLOCKBL = 0,
         BLOCKCH = 0, BLOCKCL = 0, BLOCKDH = 0, BLOCKDL = 0,
         BLED = 0, BLEC = 0, BLEB = 0, BLEA = 0\<rparr>,
      volume = 0\<rparr>"

subsection \<open>Tuning and volume\<close>

text \<open>
  Modelled from the spec: the body of \<open>setFrequency\<close> is not in the header. The
  frequency is stored through \<open>currentFrequency.value\<close>, its two bytes go into the
  arguments of the tune command, and the working frequency is the value set
  (sections 3, 4.1 and 8).
\<close>

definition setFrequency :: "16 word \<Rightarrow> SI4735 \<Rightarrow> SI4735" where
  "setFrequency freq s =
     (let f = si47x_frequency_of_value freq in
      s\<lparr>currentFrequency := f,
        currentFrequencyParams :=
          (currentFrequencyParams s)\<lparr>ARG_FREQH := FREQH f, ARG_FREQL := FREQL f\<rparr>,
        currentWorkFrequency := freq\<rparr>)"

text \<open>
  Modelled from the spec: the body of \<open>getFrequency\<close> is not in the header. The tune
  status response \<open>r\<close> is kept in \<open>currentStatus\<close>; its two frequency bytes are put in
  a \<open>si47x_frequency\<close>, and the value read from it is returned and becomes the working
  frequency.
\<close>

definition getFrequency :: "si47x_response_status \<Rightarrow> SI4735 \<Rightarrow> 16 word \<times> SI4735" where
  "getFrequency r s =
     (let freq = si47x_frequency_value \<lparr>FREQL = READFREQL r, FREQH = READFREQH r\<rparr> in
      (freq, s\<lparr>currentStatus := r, currentWorkFrequency := freq\<rparr>))"

text \<open>
  Modelled from the spec: the bodies of \<open>setVolume\<close>, \<open>volumeUp\<close> and \<open>volumeDown\<close>
  are not in the header. Section 4.5: volume set clamps to 0..63, and volume up and down
  are saturating. The parameter is a \<open>uint8_t\<close>, so it is never below 0.
\<close>

definition setVolume :: "8 word \<Rightarrow> SI4735 \<Rightarrow> SI4735" where
  "setVolume v s = s\<lparr>volume := (if 63 < v then 63 else v)\<rparr>"

definition volumeUp :: "SI4735 \<Rightarrow> SI4735" where
  "volumeUp s = setVolume (if volume s < 63 then volume s + 1 else volume s) s"

definition volumeDown :: "SI4735 \<Rightarrow> SI4735" where
  "volumeDown s = setVolume (if 0 < volume s then volume s - 1 else volume s) s"

subsection \<open>Bus address\<close>



subsection \<open>RDS\<close>

text \<open>
  \<open>si47x_rds_blockb\<close> overlays the 16-bit bit-field structs on the two bytes
  \<open>raw.lowValue\<close>, \<open>raw.highValue\<close>, in this order in memory.
\<close>

definition si47x_rds_blockb_of_raw :: "8 word \<Rightarrow> 8 word \<Rightarrow> 16 word" where
  "si47x_rds_blockb_of_raw lowValue highValue = word_cat highValue lowValue"

definition blockB :: "si47x_rds_status \<Rightarrow> 16 word" where
  "blockB r = si47x_rds_blockb_of_raw (BLOCKBL r) (BLOCKBH r)"

text \<open>\<open>getRdsReceived\<close> is defined in the header: the \<open>RDSRECV\<close> member as a \<open>bool\<close>.\<close>

definition getRdsReceived :: "SI4735 \<Rightarrow> bool" where
  "getRdsReceived s \<longleftrightarrow> RDSRECV (currentRdsStatus s) \<noteq> 0"

text \<open>
  Modelled from the spec: the bodies of \<open>getRdsGroupType\<close>, \<open>getRdsVersionCode\<close>,
  \<open>getRdsFlagAB\<close> and \<open>getRdsTextSegmentAddress\<close> are not in the header. Each
  returns the member of that name of block B of the current RDS status, read through
  the \<open>si47x_rds_blockb\<close> union (sections 3 and 4.4).
\<close>

definition getRdsGroupType :: "SI4735 \<Rightarrow> 8 word" where
  "getRdsGroupType s =
     ucast (read_field si47x_rds_blockb_refined_layout ''groupType''
              (blockB (currentRdsStatus s)))"

definition getRdsVersionCode :: "SI4735 \<Rightarrow> 8 word" where
  "getRdsVersionCode s =
     ucast (read_field si47x_rds_blockb_refined_layout ''versionCode''
              (blockB (currentRdsStatus s)))"

definition getRdsFlagAB :: "SI4735 \<Rightarrow> 8 word" where
  "getRdsFlagAB s =
     ucast (read_field si47x_rds_blockb_refined_layout ''textABFlag''
              (blockB (currentRdsStatus s)))"

definition getRdsTextSegmentAddress :: "SI4735 \<Rightarrow> 8 word" where
  "getRdsTextSegmentAddress s =
     ucast (read_field si47x_rds_blockb_group2_layout ''address''
              (blockB (currentRdsStatus s)))"

text \<open>The 2-bit segment address of a type 0 group, member \<open>address\<close> of \<open>group0\<close>.\<close>

definition group0_address :: "SI4735 \<Rightarrow> 8 word" where
  "group0_address s =
     ucast (read_field si47x_rds_blockb_group0_layout ''address''
              (blockB (currentRdsStatus s)))"

text \<open>
  Modelled from the spec: the bodies of \<open>clearRdsBuffer2A\<close>, \<open>clearRdsBuffer2B\<close>,
  \<open>clearRdsBuffer0A\<close> and \<open>RdsInit\<close> are not in the header. A cleared buffer is
  empty: every \<open>char\<close> of the array is the terminator. \<open>RdsInit\<close> creates the buffers
  empty (section 3).
\<close>

definition clearRdsBuffer2A :: "SI4735 \<Rightarrow> SI4735" where
  "clearRdsBuffer2A s = s\<lparr>rds_buffer2A := replicate 65 0\<rparr>"

definition clearRdsBuffer2B :: "SI4735 \<Rightarrow> SI4735" where
  "clearRdsBuffer2B s = s\<lparr>rds_buffer2B := replicate 33 0\<rparr>"

definition clearRdsBuffer0A :: "SI4735 \<Rightarrow> SI4735" where
  "clearRdsBuffer0A s = s\<lparr>rds_buffer0A := replicate 9 0\<rparr>"

definition RdsInit :: "SI4735 \<Rightarrow> SI4735" where
  "RdsInit s = clearRdsBuffer0A (clearRdsBuffer2B (clearRdsBuffer2A s))"

text \<open>
  Modelled from the spec: the bodies of \<open>getNext2Block\<close> and \<open>getNext4Block\<close> are not
  in the header. \<open>getNext2Block\<close> writes the two characters of block D at position
  \<open>i\<close> of a buffer, \<open>getNext4Block\<close> the two characters of block C and then the two of
  block D (section 4.4). A write outside the array does not happen: every caller below
  stays inside it.
\<close>

definition getNext2Block :: "SI4735 \<Rightarrow> nat \<Rightarrow> 8 word list \<Rightarrow> 8 word list" where
  "getNext2Block s i buf =
     (let r = currentRdsStatus s in buf[i := BLOCKDH r, i + 1 := BLOCKDL r])"

definition getNext4Block :: "SI4735 \<Rightarrow> nat \<Rightarrow> 8 word list \<Rightarrow> 8 word list" where
  "getNext4Block s i buf =
     (let r = currentRdsStatus s in
      buf[i := BLOCKCH r, i + 1 := BLOCKCL r, i + 2 := BLOCKDH r, i + 3 := BLOCKDL r])"

text \<open>
  Modelled from the spec: the bodies of \<open>getRdsText0A\<close>, \<open>getRdsText2A\<close>,
  \<open>getRdsText2B\<close> and \<open>getRdsTime\<close> are not in the header; these are their effects
  on the buffers (section 4.4, step 2).
  Type 0: the 2-bit address selects one of 4 two-character slots of the station name.
  Type 2A: the 4-bit address selects one of 16 four-character slots of the long text;
  a text flag that differs from the last one clears the buffer before the write.
  Type 2B: the 4-bit address selects a two-character slot of the short text; the same
  rule on a flag state of its own.
  Type 4A: the date and time are taken from blocks B, C and D through the
  \<open>si47x_rds_date_time\<close> layout, block D lowest, and replace the record as a whole.
\<close>

definition getRdsText0A :: "SI4735 \<Rightarrow> SI4735" where
  "getRdsText0A s =
     s\<lparr>rds_buffer0A := getNext2Block s (unat (group0_address s) * 2) (rds_buffer0A s)\<rparr>"

definition getRdsText2A :: "SI4735 \<Rightarrow> SI4735" where
  "getRdsText2A s =
     (let s1 = (if getRdsFlagAB s \<noteq> lastTextFlagAB s then clearRdsBuffer2A s else s) in
      s1\<lparr>rds_buffer2A :=
            getNext4Block s (unat (getRdsTextSegmentAddress s) * 4) (rds_buffer2A s1),
         lastTextFlagAB := getRdsFlagAB s\<rparr>)"

definition getRdsText2B :: "SI4735 \<Rightarrow> SI4735" where
  "getRdsText2B s =
     (let s1 = (if getRdsFlagAB s \<noteq> lastTextFlag2B s then clearRdsBuffer2B s else s) in
      s1\<lparr>rds_buffer2B :=
            getNext2Block s (unat (getRdsTextSegmentAddress s) * 2) (rds_buffer2B s1),
         lastTextFlag2B := getRdsFlagAB s\<rparr>)"

definition date_time_raw :: "si47x_rds_status \<Rightarrow> 48 word" where
  "date_time_raw r =
     word_cat (blockB r)
       (word_cat (word_cat (BLOCKCH r) (BLOCKCL r) :: 16 word)
                 (word_cat (BLOCKDH r) (BLOCKDL r) :: 16 word) :: 32 word)"

definition date_time_member :: "string \<Rightarrow> 48 word \<Rightarrow> 48 word" where
  "date_time_member n w = read_field si47x_rds_date_time_layout n w"

definition getRdsTime :: "SI4735 \<Rightarrow> SI4735" where
  "getRdsTime s =
     (let w = date_time_raw (currentRdsStatus s) in
      s\<lparr>rds_date_time :=
          \<lparr>offset = ucast (date_time_member ''offset'' w),
           offset_sense = ucast (date_time_member ''offset_sense'' w),
           minute1 = ucast (date_time_member ''minute1'' w),
           minute2 = ucast (date_time_member ''minute2'' w),
           hour1 = ucast (date_time_member ''hour1'' w),
           hour2 = ucast (date_time_member ''hour2'' w),
           mjd = ucast (date_time_member ''mjd'' w)\<rparr>\<rparr>)"

text \<open>
  Modelled from the spec: how a status response is routed (section 4.4). No group is
  there when the received flag is unset. A group is discarded when the grade of a block
  its type needs is uncorrectable (3): block B carries the type, type 0 and 2B also need
  block D, type 2A and 4A blocks C and D. Other types are ignored.
\<close>

datatype rds_route =
  NoNewGroup | Discarded | StationName | RadioText2A | RadioText2B | DateTime | Ignored

definition uncorrectable :: "2 word \<Rightarrow> bool" where
  "uncorrectable g \<longleftrightarrow> g = 3"

definition rds_route :: "SI4735 \<Rightarrow> rds_route" where
  "rds_route s =
     (let r = currentRdsStatus s; t = getRdsGroupType s; v = getRdsVersionCode s in
      if \<not> getRdsReceived s then NoNewGroup
      else if uncorrectable (BLEB r) then Discarded
      else if t = 0 then
        (if uncorrectable (BLED r) then Discarded else StationName)
      else if t = 2 \<and> v = 0 then
        (if uncorrectable (BLEC r) \<or> uncorrectable (BLED r) then Discarded
         else RadioText2A)
      else if t = 2 \<and> v = 1 then
        (if uncorrectable (BLED r) then Discarded else RadioText2B)
      else if t = 4 \<and> v = 0 then
        (if uncorrectable (BLEC r) \<or> uncorrectable (BLED r) then Discarded
         else DateTime)
      else Ignored)"

definition rds_assemble :: "SI4735 \<Rightarrow> SI4735" where
  "rds_assemble s =
     (case rds_route s of
        StationName \<Rightarrow> getRdsText0A s
      | RadioText2A \<Rightarrow> getRdsText2A s
      | RadioText2B \<Rightarrow> getRdsText2B s
      | DateTime \<Rightarrow> getRdsTime s
      | _ \<Rightarrow> s)"

text \<open>
  Modelled from the spec: the body of \<open>getRdsStatus\<close> is not in the header. One call
  takes one RDS status response \<open>r\<close> into \<open>currentRdsStatus\<close>; \<open>rds_ingest\<close> is
  that followed by the assembly of the group, \<open>rds_feed\<close> the same for a sequence of
  responses in order.
\<close>

definition getRdsStatus :: "si47x_rds_status \<Rightarrow> SI4735 \<Rightarrow> SI4735" where
  "getRdsStatus r s = s\<lparr>currentRdsStatus := r\<rparr>"

definition rds_ingest :: "si47x_rds_status \<Rightarrow> SI4735 \<Rightarrow> SI4735" where
  "rds_ingest r s = rds_assemble (getRdsStatus r s)"

definition rds_feed :: "si47x_rds_status list \<Rightarrow> SI4735 \<Rightarrow> SI4735" where
  "rds_feed rs s = foldl (\<lambda>s r. rds_ingest r s) s rs"

subsection \<open>Sequences of public operations\<close>





subsection \<open>A group for concrete runs\<close>

text \<open>
  A type 2A group: text flag 1, segment address 1, characters \<open>H i ! space\<close>, all
  blocks clean.
\<close>

definition example_group_2A :: si47x_rds_status where
  "example_group_2A =
     \<lparr>RDSRECV = 1, BLOCKAH = 0x12, BLOCKAL = 0x34, BLOCKBH = 0x20, BLOCKBL = 0x11,
      BLOCKCH = 0x48, BLOCKCL = 0x69, BLOCKDH = 0x21, BLOCKDL = 0x20,
      BLED = 0, BLEC = 0, BLEB = 0, BLEA = 0\<rparr>"

section \<open>Layout facts\<close>

lemmas layout_defs = status_bits_def
  si473x_powerup_layout_def si47x_frequency_layout_def si47x_antenna_capacitor_layout_def
  si47x_set_frequency_layout_def si47x_seek_layout_def si47x_status_layout_def
  si47x_response_status_layout_def si47x_firmware_information_layout_def
  si47x_firmware_query_library_layout_def si47x_tune_status_layout_def
  si47x_property_layout_def si47x_rqs_status_layout_def si47x_rds_command_layout_def
  si47x_rds_status_layout_def si47x_rds_int_source_layout_def si47x_rds_config_layout_def
  si47x_rds_blocka_refined_layout_def si47x_rds_blocka_raw_layout_def
  si47x_rds_blockb_group0_layout_def si47x_rds_blockb_group2_layout_def
  si47x_rds_blockb_refined_layout_def si47x_rds_blockb_raw_layout_def
  si47x_rds_date_time_layout_def
  si47x_agc_status_layout_def si47x_agc_overrride_layout_def
  si47x_bandwidth_config_layout_def si47x_ssb_mode_layout_def
  si4735_digital_output_format_layout_def

lemma blockb_ranges:
  "field_range si47x_rds_blockb_refined_layout ''groupType'' = Some (12, 4)"
  "field_range si47x_rds_blockb_refined_layout ''versionCode'' = Some (11, 1)"
  "field_range si47x_rds_blockb_refined_layout ''textABFlag'' = Some (4, 1)"
  "field_range si47x_rds_blockb_group2_layout ''address'' = Some (0, 4)"
  "field_range si47x_rds_blockb_group0_layout ''address'' = Some (0, 2)"
  by (simp_all add: field_range_def placed_def si47x_rds_blockb_refined_layout_def
        si47x_rds_blockb_group2_layout_def si47x_rds_blockb_group0_layout_def)

text \<open>Block B seen through its two raw bytes.\<close>

lemma groupType_high_nibble:
  "ucast (take_bit 4 (drop_bit 12 (word_cat (h :: 8 word) (l :: 8 word) :: 16 word)))
     = drop_bit 4 h"
  by (rule bit_word_eqI) (auto simp add: bit_simps dest: bit_imp_le_length)

lemma versionCode_bit3:
  "ucast (take_bit 1 (drop_bit 11 (word_cat (h :: 8 word) (l :: 8 word) :: 16 word)))
     = take_bit 1 (drop_bit 3 h)"
  by (rule bit_word_eqI)
     (auto simp add: bit_simps simp del: take_bit_Suc_0 take_bit_of_Suc_0)

lemma getRdsGroupType_eq:
  "getRdsGroupType s = drop_bit 4 (BLOCKBH (currentRdsStatus s))"
  by (simp only: getRdsGroupType_def read_field_def blockb_ranges read_range_def
        option.case prod.case blockB_def si47x_rds_blockb_of_raw_def groupType_high_nibble)

lemma getRdsVersionCode_eq:
  "getRdsVersionCode s = take_bit 1 (drop_bit 3 (BLOCKBH (currentRdsStatus s)))"
  by (simp only: getRdsVersionCode_def read_field_def blockb_ranges read_range_def
        option.case prod.case blockB_def si47x_rds_blockb_of_raw_def versionCode_bit3)

lemma getRdsFlagAB_eq:
  "getRdsFlagAB s = take_bit 1 (drop_bit 4 (BLOCKBL (currentRdsStatus s)))"
  unfolding getRdsFlagAB_def read_field_def blockb_ranges read_range_def option.case
    prod.case blockB_def si47x_rds_blockb_of_raw_def
  by (rule bit_word_eqI)
     (auto simp add: bit_simps simp del: take_bit_Suc_0 take_bit_of_Suc_0)

lemma getRdsTextSegmentAddress_eq:
  "getRdsTextSegmentAddress s = take_bit 4 (BLOCKBL (currentRdsStatus s))"
  unfolding getRdsTextSegmentAddress_def read_field_def blockb_ranges read_range_def
    option.case prod.case blockB_def si47x_rds_blockb_of_raw_def
  by (rule bit_word_eqI) (auto simp add: bit_simps)

section \<open>Frequency\<close>

lemma frequency_value_of_value:
  "si47x_frequency_value (si47x_frequency_of_value v) = v"
  unfolding si47x_frequency_value_def si47x_frequency_of_value_def
  by (rule bit_word_eqI) (auto simp add: bit_simps)

lemma frequency_of_value_value:
  "si47x_frequency_of_value (si47x_frequency_value f) = f"
proof (cases f)
  case (fields l h)
  have "ucast (word_cat h l :: 16 word) = l"
    by (rule bit_word_eqI) (auto simp add: bit_simps)
  moreover have "ucast (drop_bit 8 (word_cat h l :: 16 word)) = h"
    by (rule bit_word_eqI) (auto simp add: bit_simps)
  ultimately show ?thesis
    by (simp add: fields si47x_frequency_value_def si47x_frequency_of_value_def)
qed

lemma word_cat_weighs:
  "unat (word_cat (h :: 8 word) (l :: 8 word) :: 16 word) = unat h * 256 + unat l"
proof -
  have uh: "uint (ucast h :: 16 word) = uint h"
    and ul: "uint (ucast l :: 16 word) = uint l"
    by (simp_all add: uint_up_ucast is_up)
  have "0 \<le> uint h" "uint h < 256" "0 \<le> uint l" "uint l < 256"
    using uint_lt2p [of h] uint_lt2p [of l] by simp_all
  then have "(uint h * 256 mod 65536 + uint l) mod 65536 = uint h * 256 + uint l"
    by simp
  then have "uint (word_cat h l :: 16 word) = uint h * 256 + uint l"
    by (simp add: word_cat_eq uint_word_ariths push_bit_eq_mult uint_word_of_int uh ul)
  then have "nat (uint (word_cat h l :: 16 word)) = nat (uint h * 256 + uint l)"
    by (rule arg_cong)
  then show ?thesis
    by (simp add: nat_add_distrib nat_mult_distrib)
qed

lemma frequency_value_weighs:
  "unat (si47x_frequency_value f) = unat (FREQH f) * 256 + unat (FREQL f)"
  unfolding si47x_frequency_value_def by (rule word_cat_weighs)

text \<open>
  C1. For every 16-bit frequency, the value stored in \<open>si47x_frequency\<close> and read back
  from its two bytes \<open>FREQL\<close>, \<open>FREQH\<close> is the value stored, and the two bytes read
  back from a value are the two bytes it was made of: storing and reading are inverse to
  each other on all of \<open>uint16_t\<close>, so on every band; the value is 256 times the
  high byte plus the low byte. After \<open>setFrequency\<close> the value
  read from \<open>currentFrequency\<close> and the working frequency are the frequency set, and
  \<open>getFrequency\<close> on a response that carries the two argument bytes of the tune
  command returns it.
\<close>

theorem frequency_round_trip:
  "si47x_frequency_value (si47x_frequency_of_value v) = v \<and>
   si47x_frequency_of_value (si47x_frequency_value f) = f \<and>
   unat v = unat (FREQH (si47x_frequency_of_value v)) * 256
              + unat (FREQL (si47x_frequency_of_value v)) \<and>
   si47x_frequency_value (currentFrequency (setFrequency v s)) = v \<and>
   currentWorkFrequency (setFrequency v s) = v \<and>
   fst (getFrequency
          \<lparr>READFREQH = ARG_FREQH (currentFrequencyParams (setFrequency v s)),
           READFREQL = ARG_FREQL (currentFrequencyParams (setFrequency v s))\<rparr>
          (setFrequency v s)) = v"
proof -
  have "FREQL (si47x_frequency_of_value v) = ucast v"
    "FREQH (si47x_frequency_of_value v) = ucast (drop_bit 8 v)"
    by (simp_all add: si47x_frequency_of_value_def)
  then have "si47x_frequency_value
      \<lparr>FREQL = FREQL (si47x_frequency_of_value v),
       FREQH = FREQH (si47x_frequency_of_value v)\<rparr> = v"
    using frequency_value_of_value [of v] by (simp add: si47x_frequency_of_value_def)
  moreover have "unat v = unat (FREQH (si47x_frequency_of_value v)) * 256
              + unat (FREQL (si47x_frequency_of_value v))"
    using frequency_value_weighs [of "si47x_frequency_of_value v"]
    by (simp add: frequency_value_of_value)
  ultimately show ?thesis
    by (simp add: frequency_value_of_value frequency_of_value_value setFrequency_def
          getFrequency_def Let_def)
qed

section \<open>Volume\<close>

lemma volumeUp_in_range:
  assumes "volume s \<le> 63"
  shows "volume (volumeUp s) \<le> 63 \<and>
         unat (volume (volumeUp s)) = min 63 (unat (volume s) + 1)"
proof (cases "volume s < 63")
  case True
  then have lt: "unat (volume s) < 63" by (simp add: word_less_nat_alt)
  then have u: "unat (volume s + 1) = unat (volume s) + 1"
    by (simp add: unat_word_ariths)
  with lt have "volume s + 1 \<le> 63" by (simp add: word_le_nat_alt)
  with True u lt show ?thesis
    by (simp add: volumeUp_def setVolume_def not_less [symmetric])
next
  case False
  with assms have "volume s = 63" by simp
  then show ?thesis by (simp add: volumeUp_def setVolume_def)
qed

lemma volumeDown_in_range:
  assumes "volume s \<le> 63"
  shows "volume (volumeDown s) \<le> 63 \<and>
         unat (volume (volumeDown s)) = unat (volume s) - 1"
proof (cases "0 < volume s")
  case True
  then have nz: "volume s \<noteq> 0" by simp
  then have u: "unat (volume s - 1) = unat (volume s) - 1"
    by (rule unat_minus_one)
  from assms have "unat (volume s) \<le> 63" by (simp add: word_le_nat_alt)
  with u have "volume s - 1 \<le> 63" by (simp add: word_le_nat_alt)
  with True u show ?thesis
    by (simp add: volumeDown_def setVolume_def not_less [symmetric])
next
  case False
  then have "volume s = 0" using word_neq_0_conv [of "volume s"] by blast
  then show ?thesis by (simp add: volumeDown_def setVolume_def)
qed

text \<open>
  C3. \<open>setVolume\<close> leaves a volume of at most 63 whatever is requested: the request
  itself up to 63, and 63 above it. From a volume in range, \<open>volumeUp\<close> at 63 stays at
  63 and \<open>volumeDown\<close> at 0 stays at 0; below 63 \<open>volumeUp\<close> adds one and above 0
  \<open>volumeDown\<close> takes one away, without wrapping around.
\<close>

theorem volume_clamped_and_saturating:
  assumes "volume s \<le> 63"
  shows "volume (setVolume v s) \<le> 63 \<and>
         volume (setVolume v s) = (if 63 < v then 63 else v) \<and>
         volume (volumeUp (s\<lparr>volume := 63\<rparr>)) = 63 \<and>
         volume (volumeDown (s\<lparr>volume := 0\<rparr>)) = 0 \<and>
         volume (volumeUp s) \<le> 63 \<and>
         volume (volumeDown s) \<le> 63 \<and>
         unat (volume (volumeUp s)) = min 63 (unat (volume s) + 1) \<and>
         unat (volume (volumeDown s)) = unat (volume s) - 1"
proof -
  have set: "volume (setVolume v s) \<le> 63 \<and>
             volume (setVolume v s) = (if 63 < v then 63 else v)"
    by (simp add: setVolume_def not_less)
  have ends: "volume (volumeUp (s\<lparr>volume := 63\<rparr>)) = 63 \<and>
              volume (volumeDown (s\<lparr>volume := 0\<rparr>)) = 0"
    by (simp add: volumeUp_def volumeDown_def setVolume_def)
  from set ends volumeUp_in_range [OF assms] volumeDown_in_range [OF assms]
  show ?thesis by blast
qed

theorem volume_clamped_and_saturating_witness:
  "volume (SI4735_new zero_memory) \<le> 63 \<and>
   volume (setVolume 200 (SI4735_new zero_memory)) = 63 \<and>
   unat (volume (volumeUp (SI4735_new zero_memory))) = 33 \<and>
   unat (volume (volumeDown (SI4735_new zero_memory))) = 31"
proof -
  have h: "volume (SI4735_new zero_memory) \<le> 63"
    by (simp add: SI4735_new_def)
  have v: "unat (volume (SI4735_new zero_memory)) = 32"
    by (simp add: SI4735_new_def)
  from volume_clamped_and_saturating [OF h, of 200] h v show ?thesis by simp
qed

text \<open>
  C10. The volume of a constructed controller, as \<open>getCurrentVolume\<close> returns it before
  anything else is called, is 32, whatever the memory of the object held.
\<close>

theorem initial_volume_32: "getCurrentVolume (SI4735_new m) = 32"
  by (simp add: getCurrentVolume_def SI4735_new_def)

section \<open>RDS assembly\<close>

lemma nth_update_cases:
  "j < length xs \<Longrightarrow> (xs[i := a]) ! j = (if i = j then a else xs ! j)"
  by (cases "i = j") simp_all

lemma update2_twice:
  "(buf[i := a, j := b])[i := a, j := b] = buf[i := a, j := b]"
  by (simp add: list_eq_iff_nth_eq nth_update_cases)

lemma update4_twice:
  "(buf[i := a, j := b, k := c, l := d])[i := a, j := b, k := c, l := d]
     = buf[i := a, j := b, k := c, l := d]"
  by (simp add: list_eq_iff_nth_eq nth_update_cases)

lemma getNext2Block_twice:
  "getNext2Block s i (getNext2Block s i buf) = getNext2Block s i buf"
  by (simp add: getNext2Block_def Let_def update2_twice)

lemma getNext4Block_twice:
  "getNext4Block s i (getNext4Block s i buf) = getNext4Block s i buf"
  by (simp add: getNext4Block_def Let_def update4_twice)

text \<open>What is read from the current RDS status depends on nothing else in the state.\<close>

lemma rds_route_cong:
  "currentRdsStatus s' = currentRdsStatus s \<Longrightarrow> rds_route s' = rds_route s"
  by (simp add: rds_route_def getRdsReceived_def getRdsGroupType_def
        getRdsVersionCode_def)

lemma getRdsFlagAB_cong:
  "currentRdsStatus s' = currentRdsStatus s \<Longrightarrow> getRdsFlagAB s' = getRdsFlagAB s"
  by (simp add: getRdsFlagAB_def)

lemma getRdsTextSegmentAddress_cong:
  "currentRdsStatus s' = currentRdsStatus s \<Longrightarrow>
     getRdsTextSegmentAddress s' = getRdsTextSegmentAddress s"
  by (simp add: getRdsTextSegmentAddress_def)

lemma group0_address_cong:
  "currentRdsStatus s' = currentRdsStatus s \<Longrightarrow> group0_address s' = group0_address s"
  by (simp add: group0_address_def)

lemma getNext2Block_cong:
  "currentRdsStatus s' = currentRdsStatus s \<Longrightarrow> getNext2Block s' = getNext2Block s"
  by (simp add: getNext2Block_def fun_eq_iff)

lemma getNext4Block_cong:
  "currentRdsStatus s' = currentRdsStatus s \<Longrightarrow> getNext4Block s' = getNext4Block s"
  by (simp add: getNext4Block_def fun_eq_iff)

text \<open>No assembly step touches the current RDS status.\<close>

lemma status_getRdsText0A: "currentRdsStatus (getRdsText0A s) = currentRdsStatus s"
  by (simp add: getRdsText0A_def)

lemma status_getRdsText2A: "currentRdsStatus (getRdsText2A s) = currentRdsStatus s"
  by (simp add: getRdsText2A_def clearRdsBuffer2A_def Let_def)

lemma status_getRdsText2B: "currentRdsStatus (getRdsText2B s) = currentRdsStatus s"
  by (simp add: getRdsText2B_def clearRdsBuffer2B_def Let_def)

lemma status_getRdsTime: "currentRdsStatus (getRdsTime s) = currentRdsStatus s"
  by (simp add: getRdsTime_def Let_def)

lemma status_rds_assemble: "currentRdsStatus (rds_assemble s) = currentRdsStatus s"
  by (simp add: rds_assemble_def status_getRdsText0A status_getRdsText2A
        status_getRdsText2B status_getRdsTime split: rds_route.split)

text \<open>Each assembly step, done again on its own result, changes nothing.\<close>

lemma getRdsText0A_twice: "getRdsText0A (getRdsText0A s) = getRdsText0A s"
proof -
  have st: "currentRdsStatus (getRdsText0A s) = currentRdsStatus s"
    by (rule status_getRdsText0A)
  show ?thesis
    unfolding getRdsText0A_def [of "getRdsText0A s"]
    unfolding group0_address_cong [OF st] getNext2Block_cong [OF st]
    by (simp add: getRdsText0A_def getNext2Block_twice)
qed

lemma getRdsText2A_twice: "getRdsText2A (getRdsText2A s) = getRdsText2A s"
proof -
  have st: "currentRdsStatus (getRdsText2A s) = currentRdsStatus s"
    by (rule status_getRdsText2A)
  have fl: "lastTextFlagAB (getRdsText2A s) = getRdsFlagAB s"
    by (simp add: getRdsText2A_def Let_def)
  show ?thesis
    unfolding getRdsText2A_def [of "getRdsText2A s"]
    unfolding getRdsFlagAB_cong [OF st] getRdsTextSegmentAddress_cong [OF st]
      getNext4Block_cong [OF st] fl
    by (simp add: getRdsText2A_def Let_def getNext4Block_twice clearRdsBuffer2A_def)
qed

lemma getRdsText2B_twice: "getRdsText2B (getRdsText2B s) = getRdsText2B s"
proof -
  have st: "currentRdsStatus (getRdsText2B s) = currentRdsStatus s"
    by (rule status_getRdsText2B)
  have fl: "lastTextFlag2B (getRdsText2B s) = getRdsFlagAB s"
    by (simp add: getRdsText2B_def Let_def)
  show ?thesis
    unfolding getRdsText2B_def [of "getRdsText2B s"]
    unfolding getRdsFlagAB_cong [OF st] getRdsTextSegmentAddress_cong [OF st]
      getNext2Block_cong [OF st] fl
    by (simp add: getRdsText2B_def Let_def getNext2Block_twice clearRdsBuffer2B_def)
qed

lemma getRdsTime_twice: "getRdsTime (getRdsTime s) = getRdsTime s"
  by (simp add: getRdsTime_def Let_def)

lemma rds_assemble_twice: "rds_assemble (rds_assemble s) = rds_assemble s"
proof -
  have r: "rds_route (rds_assemble s) = rds_route s"
    by (rule rds_route_cong) (rule status_rds_assemble)
  show ?thesis
    unfolding rds_assemble_def [of "rds_assemble s"] r
    by (simp add: rds_assemble_def getRdsText0A_twice getRdsText2A_twice
          getRdsText2B_twice getRdsTime_twice split: rds_route.split)
qed

lemma rds_ingest_twice: "rds_ingest r (rds_ingest r s) = rds_ingest r s"
proof -
  have "currentRdsStatus (rds_ingest r s) = r"
    by (simp add: rds_ingest_def status_rds_assemble getRdsStatus_def)
  then have "getRdsStatus r (rds_ingest r s) = rds_ingest r s"
    by (simp add: getRdsStatus_def)
  then have "rds_ingest r (rds_ingest r s) = rds_assemble (rds_ingest r s)"
    by (simp add: rds_ingest_def [of r "rds_ingest r s"])
  then show ?thesis
    by (simp add: rds_ingest_def rds_assemble_twice)
qed

text \<open>
  A concrete run: the example group, taken in after \<open>RdsInit\<close>, is routed as type 2A,
  toggles the text flag, and leaves its four characters in slot 1 of the long text and
  the short text empty.
\<close>

lemma example_group_2A_route:
  "rds_route (getRdsStatus example_group_2A s) = RadioText2A"
  by (simp add: rds_route_def getRdsReceived_def getRdsGroupType_eq getRdsVersionCode_eq
        getRdsStatus_def uncorrectable_def Let_def example_group_2A_def)

lemma example_group_2A_ingested:
  "take 8 (rds_buffer2A (rds_ingest example_group_2A (RdsInit zero_memory)))
     = [0, 0, 0, 0, 0x48, 0x69, 0x21, 0x20] \<and>
   lastTextFlagAB (rds_ingest example_group_2A (RdsInit zero_memory)) = 1 \<and>
   rds_buffer2B (rds_ingest example_group_2A (RdsInit zero_memory)) = replicate 33 0"
proof -
  let ?s = "getRdsStatus example_group_2A (RdsInit zero_memory)"
  have r: "rds_ingest example_group_2A (RdsInit zero_memory) = getRdsText2A ?s"
    by (simp add: rds_ingest_def rds_assemble_def example_group_2A_route)
  have f: "getRdsFlagAB ?s = 1" "unat (getRdsTextSegmentAddress ?s) = 1"
    by (simp_all add: getRdsFlagAB_eq getRdsTextSegmentAddress_eq getRdsStatus_def
          example_group_2A_def)
  have l: "lastTextFlagAB ?s = 0" "rds_buffer2B ?s = replicate 33 0"
    by (simp_all add: getRdsStatus_def RdsInit_def clearRdsBuffer2A_def
          clearRdsBuffer2B_def clearRdsBuffer0A_def zero_memory_def)
  have b: "rds_buffer2A (getRdsText2A ?s) = getNext4Block ?s 4 (replicate 65 0)"
    by (simp add: getRdsText2A_def Let_def f l clearRdsBuffer2A_def)
  have t: "take 8 (getNext4Block ?s 4 (replicate 65 0))
             = [0, 0, 0, 0, 0x48, 0x69, 0x21, 0x20]"
    by (simp add: getNext4Block_def getRdsStatus_def Let_def example_group_2A_def
          eval_nat_numeral)
  have o: "lastTextFlagAB (getRdsText2A ?s) = 1"
    "rds_buffer2B (getRdsText2A ?s) = replicate 33 0"
    by (simp_all add: getRdsText2A_def Let_def f l clearRdsBuffer2A_def)
  show ?thesis by (simp only: r b t o simp_thms)
qed

text \<open>
  C4. For every RDS status response and every state of the controller, taking the same
  response in twice leaves the station name, both radio texts and the date and time as
  taking it in once does; a sequence of the response twice ends in the very state that
  the response once ends in.
\<close>

theorem rds_ingest_idempotent:
  "rds_buffer0A (rds_ingest r (rds_ingest r s)) = rds_buffer0A (rds_ingest r s) \<and>
   rds_buffer2A (rds_ingest r (rds_ingest r s)) = rds_buffer2A (rds_ingest r s) \<and>
   rds_buffer2B (rds_ingest r (rds_ingest r s)) = rds_buffer2B (rds_ingest r s) \<and>
   rds_date_time (rds_ingest r (rds_ingest r s)) = rds_date_time (rds_ingest r s) \<and>
   rds_feed [r, r] s = rds_feed [r] s"
proof -
  have twice: "rds_ingest r (rds_ingest r s) = rds_ingest r s"
    by (rule rds_ingest_twice)
  have "rds_feed [r, r] s = rds_ingest r (rds_ingest r s)"
    by (simp add: rds_feed_def)
  moreover have "rds_feed [r] s = rds_ingest r s"
    by (simp add: rds_feed_def)
  ultimately show ?thesis using twice by simp
qed

section \<open>Group type and version in block B\<close>

text \<open>
  C5, as claimed: the group type and the version are encoded in the low bits of
  block B. They are not. The block B with high byte 0x28 and low byte 0 has its eight
  low bits all zero, as the all-zero block B has; its group type is 2 and its version 1,
  where those of the all-zero block are 0 and 0.
\<close>

theorem group_type_not_in_low_bits:
  "si47x_rds_blockb_of_raw 0 0x28 = 0x2800 \<and>
   take_bit 8 (0x2800 :: 16 word) = take_bit 8 (0 :: 16 word) \<and>
   read_field si47x_rds_blockb_refined_layout ''groupType'' (0x2800 :: 16 word) = 2 \<and>
   read_field si47x_rds_blockb_refined_layout ''versionCode'' (0x2800 :: 16 word) = 1 \<and>
   read_field si47x_rds_blockb_refined_layout ''groupType'' (0 :: 16 word) = 0 \<and>
   read_field si47x_rds_blockb_refined_layout ''versionCode'' (0 :: 16 word) = 0 \<and>
   getRdsGroupType
     (getRdsStatus ((currentRdsStatus zero_memory)\<lparr>BLOCKBH := 0x28\<rparr>) zero_memory) = 2 \<and>
   getRdsVersionCode
     (getRdsStatus ((currentRdsStatus zero_memory)\<lparr>BLOCKBH := 0x28\<rparr>) zero_memory) = 1"
proof -
  have "si47x_rds_blockb_of_raw 0 0x28 = 0x2800"
    by (simp add: si47x_rds_blockb_of_raw_def word_cat_eq)
  moreover have "take_bit 8 (0x2800 :: 16 word) = take_bit 8 (0 :: 16 word)"
    by simp
  moreover have
    "read_field si47x_rds_blockb_refined_layout ''groupType'' (0x2800 :: 16 word) = 2"
    "read_field si47x_rds_blockb_refined_layout ''versionCode'' (0x2800 :: 16 word) = 1"
    "read_field si47x_rds_blockb_refined_layout ''groupType'' (0 :: 16 word) = 0"
    "read_field si47x_rds_blockb_refined_layout ''versionCode'' (0 :: 16 word) = 0"
    by (simp_all add: read_field_def blockb_ranges read_range_def)
  moreover have
    "getRdsGroupType
       (getRdsStatus ((currentRdsStatus zero_memory)\<lparr>BLOCKBH := 0x28\<rparr>) zero_memory) = 2"
    "getRdsVersionCode
       (getRdsStatus ((currentRdsStatus zero_memory)\<lparr>BLOCKBH := 0x28\<rparr>) zero_memory) = 1"
    by (simp_all add: getRdsGroupType_eq getRdsVersionCode_eq getRdsStatus_def)
  ultimately show ?thesis by blast
qed

text \<open>
  C5, amended. In the declared layout of block B the group type is the last member:
  the four bits 12 to 15, the high half of the high byte \<open>BLOCKBH\<close>; the version is the
  one bit 11, bit 3 of \<open>BLOCKBH\<close>. \<open>getRdsGroupType\<close> and \<open>getRdsVersionCode\<close> return
  exactly these bits of the block B of the current RDS status.
\<close>

theorem group_type_in_high_bits:
  "field_range si47x_rds_blockb_refined_layout ''groupType'' = Some (12, 4) \<and>
   field_range si47x_rds_blockb_refined_layout ''versionCode'' = Some (11, 1) \<and>
   getRdsGroupType s = ucast (take_bit 4 (drop_bit 12 (blockB (currentRdsStatus s)))) \<and>
   getRdsVersionCode s = ucast (take_bit 1 (drop_bit 11 (blockB (currentRdsStatus s)))) \<and>
   getRdsGroupType s = drop_bit 4 (BLOCKBH (currentRdsStatus s)) \<and>
   getRdsVersionCode s = take_bit 1 (drop_bit 3 (BLOCKBH (currentRdsStatus s)))"
  by (simp only: getRdsGroupType_def getRdsVersionCode_def read_field_def blockb_ranges
        read_range_def option.case prod.case blockB_def si47x_rds_blockb_of_raw_def
        groupType_high_nibble versionCode_bit3 simp_thms)

section \<open>Members and byte boundaries\<close>




section \<open>The status byte\<close>

text \<open>
  C8. Every response structure opens with the seven status members, which fill bits 0 to
  7, the first raw byte; and in every one of them \<open>STCINT\<close> is bit 0, \<open>RDSINT\<close> bit 2,
  \<open>RSQINT\<close> bit 3, \<open>ERR\<close> bit 6 and \<open>CTS\<close> bit 7 of that byte.
\<close>

theorem status_byte_first_in_every_response:
  "\<forall>L\<in>set response_layouts.
     take 7 (placed L) = place 0 status_bits \<and>
     map last_bit (take 7 (placed L)) = [0, 1, 2, 3, 5, 6, 7] \<and>
     field_range L ''STCINT'' = Some (0, 1) \<and>
     field_range L ''RDSINT'' = Some (2, 1) \<and>
     field_range L ''RSQINT'' = Some (3, 1) \<and>
     field_range L ''ERR'' = Some (6, 1) \<and>
     field_range L ''CTS'' = Some (7, 1)"
  by (simp add: response_layouts_def layout_defs placed_def field_range_def last_bit_def)

theorem status_byte_first_in_every_response_witness:
  "si47x_rds_status_layout \<in> set response_layouts \<and>
   take 7 (placed si47x_rds_status_layout) = place 0 status_bits \<and>
   field_range si47x_rds_status_layout ''STCINT'' = Some (0, 1) \<and>
   field_range si47x_rds_status_layout ''RDSINT'' = Some (2, 1) \<and>
   field_range si47x_rds_status_layout ''RSQINT'' = Some (3, 1) \<and>
   field_range si47x_rds_status_layout ''ERR'' = Some (6, 1) \<and>
   field_range si47x_rds_status_layout ''CTS'' = Some (7, 1)"
proof -
  have m: "si47x_rds_status_layout \<in> set response_layouts"
    by (simp add: response_layouts_def)
  from bspec [OF status_byte_first_in_every_response m] m show ?thesis by blast
qed

section \<open>The device address\<close>











end
